theory Spec2Isabelle
  imports Complex_Main "HOL-Library.Multiset" "HOL-Library.Log_Nat"
begin

section \<open>Data model (types/inventory.ts)\<close>

text \<open>
  A JavaScript \<open>number\<close> is an IEEE 754 binary64 value: \<open>NaN\<close>, one of the two
  infinities, or a finite double, given by the rational it denotes. Arithmetic rounds its
  exact result to the nearest double (\<open>round64\<close> below). The two zeros are one value
  here; the code below cannot tell them apart.
\<close>

datatype number = NaN | PosInf | NegInf | Num rat

datatype location_type = main_bar | rooftop | storage | kitchen

record Location =
  loc_id :: string
  loc_name :: string
  loc_type :: location_type
  isActive :: bool

record InventoryItem =
  item_id :: string
  item_name :: string
  category :: string
  barcode :: string
  item_currentStock :: number
  unitOfMeasure :: string
  location :: Location
  item_parLevel :: number
  item_reorderPoint :: number
  costPerUnit :: number
  supplierId :: string
  expirationDate :: "string option"
  item_createdAt :: string
  item_updatedAt :: string

datatype stock_status = in_stock | low_stock | out_of_stock | overstock

record StockLevel =
  itemId :: string
  locationId :: string
  currentStock :: number
  parLevel :: number
  reorderPoint :: number
  lastUpdated :: string
  status :: stock_status

datatype transaction_type = sale | adjustment | receive | waste | transfer

record InventoryTransaction =
  tx_id :: string
  tx_itemId :: string
  tx_locationId :: string
  transactionType :: transaction_type
  tx_quantity :: number
  unitCost :: "number option"
  userId :: string
  userName :: string
  posTransactionId :: "string option"
  tx_timestamp :: string
  tx_notes :: "string option"

datatype adjustment_type = adj_add | adj_subtract | adj_set


datatype filter_status = all | f_in_stock | f_low_stock | f_out_of_stock

record InventoryFilter =
  flt_locationId :: "string option"
  flt_category :: "string option"
  flt_status :: "filter_status option"
  searchTerm :: "string option"

record InventoryState =
  items :: "InventoryItem list"
  stockLevels :: "StockLevel list"
  locations :: "Location list"
  transactions :: "InventoryTransaction list"
  filters :: InventoryFilter
  isLoading :: bool
  error :: "string option"
  isConnected :: bool
  st_lastUpdated :: "string option"

datatype alert_type = a_low_stock | a_out_of_stock | expiring_soon

datatype severity = low | medium | high | critical

record StockAlert =
  alert_id :: string
  alert_itemId :: string
  itemName :: string
  alert_locationId :: string
  locationName :: string
  alertType :: alert_type
  alert_currentStock :: number
  threshold :: number
  alert_severity :: severity
  alert_createdAt :: string

text \<open>
  \<open>WebSocketMessage\<close> is \<open>{type, data: any, timestamp}\<close>; the reducer casts \<open>data\<close>
  according to \<open>type\<close>. The tag and the payload it announces are one constructor here, the
  last argument being the timestamp.
\<close>

datatype WebSocketMessage =
    stock_update StockLevel string
  | transaction InventoryTransaction string
  | alert StockAlert string

section \<open>The inventory slice (store/slices/inventorySlice.ts)\<close>

definition initialState :: InventoryState where
  "initialState =
     \<lparr>items = [], stockLevels = [], locations = [], transactions = [],
      filters = \<lparr>flt_locationId = None, flt_category = None, flt_status = Some all,
                 searchTerm = None\<rparr>,
      isLoading = False, error = None, isConnected = False, st_lastUpdated = None\<rparr>"

text \<open>\<open>Array.prototype.findIndex\<close>: the first index whose element satisfies the
  predicate; \<open>None\<close> stands for the result \<open>-1\<close>.\<close>

fun findIndex :: "('a \<Rightarrow> bool) \<Rightarrow> 'a list \<Rightarrow> nat option" where
  "findIndex P [] = None"
| "findIndex P (x # xs) = (if P x then Some 0 else map_option Suc (findIndex P xs))"

text \<open>\<open>new Date().toISOString()\<close> is the argument \<open>now\<close> of the reducers that read
  the clock.\<close>

definition updateStockLevel :: "string \<Rightarrow> StockLevel \<Rightarrow> InventoryState \<Rightarrow> InventoryState" where
  "updateStockLevel now payload state =
     (let index = findIndex (\<lambda>level. itemId level = itemId payload
                                      \<and> locationId level = locationId payload)
                            (stockLevels state);
          levels = (case index of
                      Some i \<Rightarrow> (stockLevels state)[i := payload]
                    | None \<Rightarrow> stockLevels state @ [payload])
      in state\<lparr>stockLevels := levels, st_lastUpdated := Some now\<rparr>)"

definition addTransaction :: "InventoryTransaction \<Rightarrow> InventoryState \<Rightarrow> InventoryState" where
  "addTransaction payload state =
     (let unshifted = payload # transactions state
      in state\<lparr>transactions :=
                 (if length unshifted > 100 then take 100 unshifted else unshifted)\<rparr>)"

fun handleWebSocketMessage :: "string \<Rightarrow> WebSocketMessage \<Rightarrow> InventoryState \<Rightarrow> InventoryState" where
  "handleWebSocketMessage now (stock_update stockUpdate ts) state =
     (let stockIndex = findIndex (\<lambda>level. itemId level = itemId stockUpdate
                                           \<and> locationId level = locationId stockUpdate)
                                 (stockLevels state);
          levels = (case stockIndex of
                      Some i \<Rightarrow> (stockLevels state)[i := stockUpdate]
                    | None \<Rightarrow> stockLevels state @ [stockUpdate])
      in state\<lparr>stockLevels := levels, st_lastUpdated := Some now\<rparr>)"
| "handleWebSocketMessage now (transaction tx ts) state =
     (let unshifted = tx # transactions state
      in state\<lparr>transactions :=
                 (if length unshifted > 100 then take 100 unshifted else unshifted)\<rparr>)"
| "handleWebSocketMessage now (alert a ts) state = state"

definition createInventoryAdjustment_pending :: "InventoryState \<Rightarrow> InventoryState" where
  "createInventoryAdjustment_pending state = state\<lparr>isLoading := True, error := None\<rparr>"

definition createInventoryAdjustment_fulfilled ::
    "InventoryTransaction \<Rightarrow> InventoryState \<Rightarrow> InventoryState" where
  "createInventoryAdjustment_fulfilled payload state =
     (let unshifted = payload # transactions state
      in state\<lparr>isLoading := False,
               transactions :=
                 (if length unshifted > 100 then take 100 unshifted else unshifted)\<rparr>)"

definition createInventoryAdjustment_rejected :: "string \<Rightarrow> InventoryState \<Rightarrow> InventoryState" where
  "createInventoryAdjustment_rejected payload state =
     state\<lparr>isLoading := False, error := Some payload\<rparr>"

text \<open>The remaining reducers of the slice. \<open>Partial<InventoryFilter>\<close> says for each
  key whether it is present, and with which value.\<close>

record PartialInventoryFilter =
  p_locationId :: "string option option"
  p_category :: "string option option"
  p_status :: "filter_status option option"
  p_searchTerm :: "string option option"

definition setFilters :: "PartialInventoryFilter \<Rightarrow> InventoryState \<Rightarrow> InventoryState" where
  "setFilters payload state =
     state\<lparr>filters :=
       \<lparr>flt_locationId = (case p_locationId payload of
                             None \<Rightarrow> flt_locationId (filters state) | Some v \<Rightarrow> v),
        flt_category = (case p_category payload of
                          None \<Rightarrow> flt_category (filters state) | Some v \<Rightarrow> v),
        flt_status = (case p_status payload of
                        None \<Rightarrow> flt_status (filters state) | Some v \<Rightarrow> v),
        searchTerm = (case p_searchTerm payload of
                        None \<Rightarrow> searchTerm (filters state) | Some v \<Rightarrow> v)\<rparr>\<rparr>"

definition clearFilters :: "InventoryState \<Rightarrow> InventoryState" where
  "clearFilters state = state\<lparr>filters := filters initialState\<rparr>"

definition setConnectionStatus :: "bool \<Rightarrow> InventoryState \<Rightarrow> InventoryState" where
  "setConnectionStatus payload state = state\<lparr>isConnected := payload\<rparr>"

definition clearError :: "InventoryState \<Rightarrow> InventoryState" where
  "clearError state = state\<lparr>error := None\<rparr>"

definition fetchInventoryItems_pending :: "InventoryState \<Rightarrow> InventoryState" where
  "fetchInventoryItems_pending state = state\<lparr>isLoading := True, error := None\<rparr>"

definition fetchInventoryItems_fulfilled ::
    "string \<Rightarrow> InventoryItem list \<Rightarrow> InventoryState \<Rightarrow> InventoryState" where
  "fetchInventoryItems_fulfilled now payload state =
     state\<lparr>isLoading := False, items := payload, st_lastUpdated := Some now\<rparr>"

definition fetchInventoryItems_rejected :: "string \<Rightarrow> InventoryState \<Rightarrow> InventoryState" where
  "fetchInventoryItems_rejected payload state =
     state\<lparr>isLoading := False, error := Some payload\<rparr>"

definition fetchStockLevels_pending :: "InventoryState \<Rightarrow> InventoryState" where
  "fetchStockLevels_pending state = state\<lparr>isLoading := True, error := None\<rparr>"

definition fetchStockLevels_fulfilled ::
    "string \<Rightarrow> StockLevel list \<Rightarrow> InventoryState \<Rightarrow> InventoryState" where
  "fetchStockLevels_fulfilled now payload state =
     state\<lparr>isLoading := False, stockLevels := payload, st_lastUpdated := Some now\<rparr>"

definition fetchStockLevels_rejected :: "string \<Rightarrow> InventoryState \<Rightarrow> InventoryState" where
  "fetchStockLevels_rejected payload state =
     state\<lparr>isLoading := False, error := Some payload\<rparr>"

definition fetchLocations_fulfilled :: "Location list \<Rightarrow> InventoryState \<Rightarrow> InventoryState" where
  "fetchLocations_fulfilled payload state = state\<lparr>locations := payload\<rparr>"

definition fetchLocations_rejected :: "string \<Rightarrow> InventoryState \<Rightarrow> InventoryState" where
  "fetchLocations_rejected payload state = state\<lparr>error := Some payload\<rparr>"

definition fetchTransactions_fulfilled ::
    "InventoryTransaction list \<Rightarrow> InventoryState \<Rightarrow> InventoryState" where
  "fetchTransactions_fulfilled payload state = state\<lparr>transactions := payload\<rparr>"

definition fetchTransactions_rejected :: "string \<Rightarrow> InventoryState \<Rightarrow> InventoryState" where
  "fetchTransactions_rejected payload state = state\<lparr>error := Some payload\<rparr>"

text \<open>
  The slice reducer that \<open>createSlice\<close> builds from the reducers above: one
  constructor per action the slice handles, paired with the clock reading at its
  dispatch, and \<open>OtherAction\<close> for every action it has no case for (among them the
  pending actions of \<open>fetchLocations\<close> and \<open>fetchTransactions\<close>), which leaves the
  state as it is.
\<close>

datatype action =
    SetFilters PartialInventoryFilter
  | ClearFilters
  | SetConnectionStatus bool
  | UpdateStockLevel StockLevel
  | AddTransaction InventoryTransaction
  | HandleWebSocketMessage WebSocketMessage
  | ClearError
  | FetchItemsPending
  | FetchItemsFulfilled "InventoryItem list"
  | FetchItemsRejected string
  | FetchStockLevelsPending
  | FetchStockLevelsFulfilled "StockLevel list"
  | FetchStockLevelsRejected string
  | FetchLocationsFulfilled "Location list"
  | FetchLocationsRejected string
  | FetchTransactionsFulfilled "InventoryTransaction list"
  | FetchTransactionsRejected string
  | AdjustmentPending
  | AdjustmentFulfilled InventoryTransaction
  | AdjustmentRejected string
  | OtherAction

fun reducer :: "InventoryState \<Rightarrow> string \<times> action \<Rightarrow> InventoryState" where
  "reducer state (now, SetFilters p) = setFilters p state"
| "reducer state (now, ClearFilters) = clearFilters state"
| "reducer state (now, SetConnectionStatus b) = setConnectionStatus b state"
| "reducer state (now, UpdateStockLevel p) = updateStockLevel now p state"
| "reducer state (now, AddTransaction t) = addTransaction t state"
| "reducer state (now, HandleWebSocketMessage m) = handleWebSocketMessage now m state"
| "reducer state (now, ClearError) = clearError state"
| "reducer state (now, FetchItemsPending) = fetchInventoryItems_pending state"
| "reducer state (now, FetchItemsFulfilled p) = fetchInventoryItems_fulfilled now p state"
| "reducer state (now, FetchItemsRejected msg) = fetchInventoryItems_rejected msg state"
| "reducer state (now, FetchStockLevelsPending) = fetchStockLevels_pending state"
| "reducer state (now, FetchStockLevelsFulfilled p) = fetchStockLevels_fulfilled now p state"
| "reducer state (now, FetchStockLevelsRejected msg) = fetchStockLevels_rejected msg state"
| "reducer state (now, FetchLocationsFulfilled p) = fetchLocations_fulfilled p state"
| "reducer state (now, FetchLocationsRejected msg) = fetchLocations_rejected msg state"
| "reducer state (now, FetchTransactionsFulfilled p) = fetchTransactions_fulfilled p state"
| "reducer state (now, FetchTransactionsRejected msg) = fetchTransactions_rejected msg state"
| "reducer state (now, AdjustmentPending) = createInventoryAdjustment_pending state"
| "reducer state (now, AdjustmentFulfilled t) = createInventoryAdjustment_fulfilled t state"
| "reducer state (now, AdjustmentRejected msg) = createInventoryAdjustment_rejected msg state"
| "reducer state (now, OtherAction) = state"

section \<open>The adjustment form (components/inventory/InventoryAdjustmentModal.tsx)\<close>

subsection \<open>JavaScript primitives the component calls\<close>

text \<open>White space is the ASCII white space (tab, line feed, vertical tab, form feed,
  carriage return, space); a digit is \<open>0\<close> to \<open>9\<close>.\<close>

definition isWhiteSpace :: "char \<Rightarrow> bool" where
  "isWhiteSpace c = (of_char c \<in> {9, 10, 11, 12, 13, 32 :: nat})"

definition isDigit :: "char \<Rightarrow> bool" where
  "isDigit c = (48 \<le> (of_char c :: nat) \<and> (of_char c :: nat) \<le> 57)"

definition digitsValue :: "string \<Rightarrow> nat" where
  "digitsValue ds = foldl (\<lambda>n c. 10 * n + (of_char c - 48)) 0 ds"

text \<open>
  Rounding a rational to binary64, to nearest with ties to even: \<open>exponent a\<close> is the
  \<open>e\<close> with \<open>2^e \<le> a < 2^(e+1)\<close>, for \<open>a > 0\<close>; doubles around \<open>a\<close> are the multiples of
  \<open>2^(e - 52)\<close>, and of \<open>2^(-1074)\<close> in the subnormal range; a result of \<open>2^1024\<close> or more is
  an infinity.
\<close>

definition pow2 :: "int \<Rightarrow> rat" where
  "pow2 k = (if 0 \<le> k then 2 ^ nat k else 1 / 2 ^ nat (- k))"

definition exponent :: "rat \<Rightarrow> int" where
  "exponent a =
     (if 1 \<le> a then bitlen \<lfloor>a\<rfloor> - 1 else - bitlen (\<lceil>1 / a\<rceil> - 1))"

definition roundHalfEven :: "rat \<Rightarrow> int" where
  "roundHalfEven y =
     (let f = \<lfloor>y\<rfloor>; d = y - of_int f
      in if d < 1 / 2 then f else if 1 / 2 < d then f + 1
         else if even f then f else f + 1)"

definition round64 :: "rat \<Rightarrow> number" where
  "round64 x =
     (if x = 0 then Num 0
      else
        (let a = \<bar>x\<bar>;
             e = max (exponent a) (- 1022);
             q = pow2 (e - 52);
             r = of_int (roundHalfEven (a / q)) * q
         in if 2 ^ 1024 \<le> r then (if x < 0 then NegInf else PosInf)
            else Num (if x < 0 then - r else r)))"

text \<open>The optional sign in front of a decimal literal: whether it is a minus, and the
  rest of the text.\<close>

fun signPart :: "string \<Rightarrow> bool \<times> string" where
  "signPart [] = (False, [])"
| "signPart (c # r) =
     (if c = CHR ''-'' then (True, r) else if c = CHR ''+'' then (False, r)
      else (False, c # r))"

text \<open>The fraction after the integer digits: its digits (none without a point).\<close>

fun fractionPart :: "string \<Rightarrow> string \<times> string" where
  "fractionPart [] = ([], [])"
| "fractionPart (c # r) =
     (if c = CHR ''.'' then (takeWhile isDigit r, dropWhile isDigit r) else ([], c # r))"

text \<open>The exponent \<open>e\<close>/\<open>E\<close>, optional sign, at least one digit; \<open>0\<close> when the text
  has no well-formed exponent there.\<close>

fun exponentPart :: "string \<Rightarrow> int" where
  "exponentPart [] = 0"
| "exponentPart (c # r) =
     (if c = CHR ''e'' \<or> c = CHR ''E'' then
        (let (neg, d) = signPart r; ds = takeWhile isDigit d
         in if ds = [] then 0
            else if neg then - int (digitsValue ds) else int (digitsValue ds))
      else 0)"

text \<open>
  \<open>parseFloat\<close>: leading white space is skipped, the longest prefix that is a decimal
  literal (sign, then \<open>Infinity\<close> or digits, fraction, exponent) is read and its value
  rounded to binary64; the result is \<open>NaN\<close> when there is no such prefix.
\<close>

definition parseFloat :: "string \<Rightarrow> number" where
  "parseFloat s =
     (let (neg, u) = signPart (dropWhile isWhiteSpace s);
          ip = takeWhile isDigit u;
          (fp, r) = fractionPart (dropWhile isDigit u);
          ex = exponentPart r;
          m = of_nat (digitsValue ip) + of_nat (digitsValue fp) / 10 ^ length fp;
          v = (if 0 \<le> ex then m * 10 ^ nat ex else m / 10 ^ nat (- ex))
      in if ip = [] \<and> fp = [] then
           (if take 8 u = ''Infinity'' then (if neg then NegInf else PosInf) else NaN)
         else round64 (if neg then - v else v))"

text \<open>Truthiness of a number: \<open>0\<close> and \<open>NaN\<close> are falsy.\<close>

definition falsy :: "number \<Rightarrow> bool" where
  "falsy n = (n = NaN \<or> n = Num 0)"

text \<open>\<open>+\<close>, \<open>-\<close> and \<open>Math.max\<close> on numbers.\<close>

fun js_add :: "number \<Rightarrow> number \<Rightarrow> number" where
  "js_add NaN _ = NaN"
| "js_add _ NaN = NaN"
| "js_add PosInf NegInf = NaN"
| "js_add NegInf PosInf = NaN"
| "js_add PosInf _ = PosInf"
| "js_add _ PosInf = PosInf"
| "js_add NegInf _ = NegInf"
| "js_add _ NegInf = NegInf"
| "js_add (Num a) (Num b) = round64 (a + b)"

fun js_sub :: "number \<Rightarrow> number \<Rightarrow> number" where
  "js_sub NaN _ = NaN"
| "js_sub _ NaN = NaN"
| "js_sub PosInf PosInf = NaN"
| "js_sub NegInf NegInf = NaN"
| "js_sub PosInf _ = PosInf"
| "js_sub _ PosInf = NegInf"
| "js_sub NegInf _ = NegInf"
| "js_sub _ NegInf = PosInf"
| "js_sub (Num a) (Num b) = round64 (a - b)"

fun Math_max :: "number \<Rightarrow> number \<Rightarrow> number" where
  "Math_max NaN _ = NaN"
| "Math_max _ NaN = NaN"
| "Math_max PosInf _ = PosInf"
| "Math_max _ PosInf = PosInf"
| "Math_max NegInf y = y"
| "Math_max x NegInf = x"
| "Math_max (Num a) (Num b) = Num (max a b)"

subsection \<open>The component\<close>

text \<open>
  The closures of the component read its props, its \<open>useState\<close> cells and the store;
  what each one reads is an argument here. \<open>quantity\<close>, \<open>reason\<close>, \<open>notes\<close> and
  \<open>selectedLocationId\<close> are strings, so \<open>!quantity\<close> is "the text is empty".
\<close>

definition selectedStockLevel :: "StockLevel list \<Rightarrow> string \<Rightarrow> string \<Rightarrow> StockLevel option" where
  "selectedStockLevel levels itemId' selectedLocationId =
     (let itemStockLevels = filter (\<lambda>level. itemId level = itemId') levels
      in find (\<lambda>level. locationId level = selectedLocationId) itemStockLevels)"


definition getNewStockLevel :: "StockLevel option \<Rightarrow> string \<Rightarrow> adjustment_type \<Rightarrow> number" where
  "getNewStockLevel selected quantity adjustmentType' =
     (case selected of
        None \<Rightarrow> Num 0
      | Some level \<Rightarrow>
          if quantity = [] then
            (if falsy (currentStock level) then Num 0 else currentStock level)
          else
            (let currentStock' = currentStock level;
                 adjustmentAmount = parseFloat quantity
             in case adjustmentType' of
                  adj_add \<Rightarrow> js_add currentStock' adjustmentAmount
                | adj_subtract \<Rightarrow> Math_max (Num 0) (js_sub currentStock' adjustmentAmount)
                | adj_set \<Rightarrow> adjustmentAmount))"

section \<open>Vocabulary of the properties\<close>

subsection \<open>Stock levels\<close>

definition stockKey :: "StockLevel \<Rightarrow> string \<times> string" where
  "stockKey level = (itemId level, locationId level)"

definition uniqueKeys :: "StockLevel list \<Rightarrow> bool" where
  "uniqueKeys levels = distinct (map stockKey levels)"

subsection \<open>Sequences of dispatched actions\<close>

definition dispatchAll :: "InventoryState \<Rightarrow> (string \<times> action) list \<Rightarrow> InventoryState" where
  "dispatchAll state actions = foldl reducer state actions"

text \<open>The transaction an action puts into the list, if it puts one; and the list an
  action puts in place of the whole list, if it does that.\<close>

fun inserted :: "action \<Rightarrow> InventoryTransaction option" where
  "inserted (AddTransaction t) = Some t"
| "inserted (HandleWebSocketMessage (transaction t ts)) = Some t"
| "inserted (AdjustmentFulfilled t) = Some t"
| "inserted _ = None"

fun replacement :: "action \<Rightarrow> InventoryTransaction list option" where
  "replacement (FetchTransactionsFulfilled p) = Some p"
| "replacement _ = None"

definition keepsList :: "string \<times> action \<Rightarrow> bool" where
  "keepsList a = (replacement (snd a) = None)"

definition insertions :: "(string \<times> action) list \<Rightarrow> nat" where
  "insertions actions = length (filter (\<lambda>a. inserted (snd a) \<noteq> None) actions)"

subsection \<open>Sequences of adjustments on one stock level\<close>





text \<open>
  A safe integer (\<open>Number.isSafeInteger\<close>): an integer of magnitude at most
  \<open>2^53 - 1\<close>. The quantities of a run, from \<open>c\<close> on, are all safe integers.
\<close>

definition isSafeInteger :: "rat \<Rightarrow> bool" where
  "isSafeInteger x = (of_int \<lfloor>x\<rfloor> = x \<and> \<bar>x\<bar> < 2 ^ 53)"


subsection \<open>The quantity input\<close>


subsection \<open>Sample values\<close>

definition level1 :: StockLevel where
  "level1 = \<lparr>itemId = ''vodka'', locationId = ''main-bar'', currentStock = Num 10,
     parLevel = Num 20, reorderPoint = Num 5, lastUpdated = ''t0'', status = in_stock\<rparr>"

definition level2 :: StockLevel where
  "level2 = \<lparr>itemId = ''gin'', locationId = ''main-bar'', currentStock = Num 4,
     parLevel = Num 20, reorderPoint = Num 5, lastUpdated = ''t0'', status = low_stock\<rparr>"


definition lowStock :: StockLevel where
  "lowStock = level1\<lparr>currentStock := Num 2\<rparr>"

definition tx :: "string \<Rightarrow> InventoryTransaction" where
  "tx i = \<lparr>tx_id = i, tx_itemId = ''vodka'', tx_locationId = ''main-bar'',
     transactionType = adjustment, tx_quantity = Num 5, unitCost = None, userId = ''u1'',
     userName = ''Ann'', posTransactionId = None, tx_timestamp = ''t0'', tx_notes = None\<rparr>"

text \<open>A state whose list holds 100 transactions, \<open>tx ''a''\<close> being the oldest.\<close>

definition fullState :: InventoryState where
  "fullState = initialState\<lparr>transactions := replicate 99 (tx ''b'') @ [tx ''a'']\<rparr>"

section \<open>Properties of the slice\<close>

subsection \<open>The transaction list\<close>

lemma transactions_addTransaction:
  "transactions (addTransaction t s) = take 100 (t # transactions s)"
  by (simp add: addTransaction_def Let_def)

lemma transactions_ws_transaction:
  "transactions (handleWebSocketMessage now (transaction t ts) s) = take 100 (t # transactions s)"
  by (simp add: Let_def)

lemma transactions_fulfilled:
  "transactions (createInventoryAdjustment_fulfilled t s) = take 100 (t # transactions s)"
  by (simp add: createInventoryAdjustment_fulfilled_def Let_def)

lemma take_100_Cons: "take 100 (t # ts) = t # take 99 ts"
  by (simp add: take_Cons')

text \<open>
  C10. Each of the three operations that insert a transaction (\<open>addTransaction\<close>, a
  \<open>transaction\<close> WebSocket message, a fulfilled \<open>createInventoryAdjustment\<close>) leaves
  the list equal to the first 100 entries of the new transaction followed by the old
  list: the new transaction is at position 0, the length is at most 100, and what lay
  beyond the first 100 is gone.
\<close>

theorem inserted_transaction_first_and_capped:
  "transactions (addTransaction t s) = take 100 (t # transactions s)
   \<and> transactions (addTransaction t s) ! 0 = t
   \<and> length (transactions (addTransaction t s)) \<le> 100
   \<and> transactions (handleWebSocketMessage now (transaction t ts) s)
       = take 100 (t # transactions s)
   \<and> transactions (handleWebSocketMessage now (transaction t ts) s) ! 0 = t
   \<and> length (transactions (handleWebSocketMessage now (transaction t ts) s)) \<le> 100
   \<and> transactions (createInventoryAdjustment_fulfilled t s) = take 100 (t # transactions s)
   \<and> transactions (createInventoryAdjustment_fulfilled t s) ! 0 = t
   \<and> length (transactions (createInventoryAdjustment_fulfilled t s)) \<le> 100"
  by (simp add: transactions_addTransaction transactions_ws_transaction
      transactions_fulfilled take_100_Cons del: handleWebSocketMessage.simps)

text \<open>C10 on the full sample state: the new transaction is first and the length stays
  100.\<close>

theorem inserted_transaction_first_and_capped_witness:
  "transactions (addTransaction (tx ''c'') fullState) ! 0 = tx ''c''
   \<and> length (transactions (addTransaction (tx ''c'') fullState)) \<le> 100
   \<and> length (transactions fullState) = 100"
  using inserted_transaction_first_and_capped [of "tx ''c''" fullState]
  by (simp add: fullState_def)

subsection \<open>The stock levels\<close>

lemma findIndex_None: "findIndex P xs = None \<longleftrightarrow> (\<forall>x \<in> set xs. \<not> P x)"
  by (induction xs) auto

lemma findIndex_Some:
  "findIndex P xs = Some i \<Longrightarrow> i < length xs \<and> P (xs ! i) \<and> (\<forall>j < i. \<not> P (xs ! j))"
proof (induction xs arbitrary: i)
  case Nil
  then show ?case by simp
next
  case (Cons x xs)
  show ?case
  proof (cases "P x")
    case True
    with Cons.prems show ?thesis by simp
  next
    case False
    with Cons.prems obtain k where k: "findIndex P xs = Some k" "i = Suc k"
      by auto
    from Cons.IH [OF k(1)] False k(2) show ?thesis
      by (auto simp: less_Suc_eq_0_disj)
  qed
qed

lemma same_key_iff:
  "(itemId level = itemId p \<and> locationId level = locationId p) = (stockKey level = stockKey p)"
  by (simp add: stockKey_def)

lemma stockLevels_updateStockLevel:
  "stockLevels (updateStockLevel now p s) =
     (case findIndex (\<lambda>level. stockKey level = stockKey p) (stockLevels s) of
        Some i \<Rightarrow> (stockLevels s)[i := p]
      | None \<Rightarrow> stockLevels s @ [p])"
  by (simp add: updateStockLevel_def Let_def same_key_iff)

lemma ws_stock_update_eq:
  "handleWebSocketMessage now (stock_update p ts) s = updateStockLevel now p s"
  by (simp add: updateStockLevel_def)

lemma update_unique:
  assumes "uniqueKeys (stockLevels s)"
  shows "uniqueKeys (stockLevels (updateStockLevel now p s))"
proof (cases "findIndex (\<lambda>level. stockKey level = stockKey p) (stockLevels s)")
  case None
  then have "stockKey p \<notin> stockKey ` set (stockLevels s)"
    by (auto simp: findIndex_None)
  with assms None show ?thesis
    by (simp add: stockLevels_updateStockLevel uniqueKeys_def)
next
  case (Some i)
  from findIndex_Some [OF Some]
  have i: "i < length (stockLevels s)" "stockKey (stockLevels s ! i) = stockKey p"
    by auto
  then have "map stockKey ((stockLevels s)[i := p]) = map stockKey (stockLevels s)"
    by (simp add: map_update list_update_same_conv)
  with assms Some show ?thesis
    by (simp add: stockLevels_updateStockLevel uniqueKeys_def)
qed

lemma update_existing:
  assumes "stockKey p \<in> stockKey ` set (stockLevels s)"
  shows "\<exists>i < length (stockLevels s). stockKey (stockLevels s ! i) = stockKey p
             \<and> stockLevels (updateStockLevel now p s) = (stockLevels s)[i := p]"
proof -
  from assms have "\<not> (\<forall>x \<in> set (stockLevels s). stockKey x \<noteq> stockKey p)"
    by (metis imageE)
  then have "findIndex (\<lambda>level. stockKey level = stockKey p) (stockLevels s) \<noteq> None"
    by (simp add: findIndex_None)
  then obtain i where Some: "findIndex (\<lambda>level. stockKey level = stockKey p) (stockLevels s) = Some i"
    by auto
  from findIndex_Some [OF Some] Some show ?thesis
    by (auto simp: stockLevels_updateStockLevel)
qed

lemma update_new:
  assumes "stockKey p \<notin> stockKey ` set (stockLevels s)"
  shows "stockLevels (updateStockLevel now p s) = stockLevels s @ [p]"
proof -
  from assms have "\<forall>x \<in> set (stockLevels s). stockKey x \<noteq> stockKey p"
    by (metis imageI)
  then have "findIndex (\<lambda>level. stockKey level = stockKey p) (stockLevels s) = None"
    by (simp add: findIndex_None)
  then show ?thesis by (simp add: stockLevels_updateStockLevel)
qed

text \<open>
  C6. On a state with at most one stock level per (itemId, locationId) pair, a
  \<open>stock_update\<close> message does what \<open>updateStockLevel\<close> does, and the updated state
  again has at most one stock level per pair. When the payload's pair is already present,
  the entry at some index with that pair is overwritten by the payload and the length
  is unchanged; when it is new, the payload is appended as the one new entry.
\<close>

theorem update_preserves_unique_keys:
  "uniqueKeys (stockLevels s) \<Longrightarrow>
     handleWebSocketMessage now (stock_update p ts) s = updateStockLevel now p s
   \<and> uniqueKeys (stockLevels (updateStockLevel now p s))
   \<and> (stockKey p \<in> stockKey ` set (stockLevels s) \<longrightarrow>
        length (stockLevels (updateStockLevel now p s)) = length (stockLevels s)
      \<and> (\<exists>i < length (stockLevels s). stockKey (stockLevels s ! i) = stockKey p
             \<and> stockLevels (updateStockLevel now p s) = (stockLevels s)[i := p]))
   \<and> (stockKey p \<notin> stockKey ` set (stockLevels s) \<longrightarrow>
        stockLevels (updateStockLevel now p s) = stockLevels s @ [p])"
  using update_unique [of s now p] update_existing [of p s now] update_new [of p s now]
    ws_stock_update_eq [of now p ts s]
  by fastforce

text \<open>C6 on a state holding the vodka level: an update for vodka replaces it, an update
  for gin is appended.\<close>

theorem update_preserves_unique_keys_witness:
  "uniqueKeys (stockLevels (initialState\<lparr>stockLevels := [level1]\<rparr>))
   \<and> stockLevels (updateStockLevel ''t1'' (level1\<lparr>currentStock := Num 12\<rparr>)
        (initialState\<lparr>stockLevels := [level1]\<rparr>)) = [level1\<lparr>currentStock := Num 12\<rparr>]
   \<and> stockLevels (updateStockLevel ''t1'' level2 (initialState\<lparr>stockLevels := [level1]\<rparr>))
       = [level1, level2]
   \<and> uniqueKeys (stockLevels
        (updateStockLevel ''t1'' level2 (initialState\<lparr>stockLevels := [level1]\<rparr>)))"
proof -
  have u: "uniqueKeys (stockLevels (initialState\<lparr>stockLevels := [level1]\<rparr>))"
    by (simp add: uniqueKeys_def)
  have k1: "stockKey (level1\<lparr>currentStock := Num 12\<rparr>)
              \<in> stockKey ` set (stockLevels (initialState\<lparr>stockLevels := [level1]\<rparr>))"
    by (simp add: stockKey_def)
  have k2: "stockKey level2 \<notin> stockKey ` set (stockLevels (initialState\<lparr>stockLevels := [level1]\<rparr>))"
    by (simp add: stockKey_def level1_def level2_def)
  from update_preserves_unique_keys [OF u, of "''t1''" "level1\<lparr>currentStock := Num 12\<rparr>"] k1
       update_preserves_unique_keys [OF u, of "''t1''" level2] k2 u
  show ?thesis by auto
qed

subsection \<open>Transactions under later operations\<close>

lemma transactions_reducer:
  "transactions (reducer s (now, a)) =
     (case replacement a of
        Some p \<Rightarrow> p
      | None \<Rightarrow>
          (case inserted a of
             None \<Rightarrow> transactions s
           | Some t \<Rightarrow> take 100 (t # transactions s)))"
proof (cases a)
  case (HandleWebSocketMessage m)
  then show ?thesis
    by (cases m) (simp_all add: Let_def)
qed (simp_all add: transactions_addTransaction transactions_fulfilled updateStockLevel_def
       Let_def createInventoryAdjustment_pending_def createInventoryAdjustment_rejected_def
       setFilters_def clearFilters_def setConnectionStatus_def clearError_def
       fetchInventoryItems_pending_def fetchInventoryItems_fulfilled_def
       fetchInventoryItems_rejected_def fetchStockLevels_pending_def
       fetchStockLevels_fulfilled_def fetchStockLevels_rejected_def
       fetchLocations_fulfilled_def fetchLocations_rejected_def
       fetchTransactions_fulfilled_def fetchTransactions_rejected_def)

lemma dispatchAll_Cons: "dispatchAll s (a # as) = dispatchAll (reducer s a) as"
  by (simp add: dispatchAll_def)

lemma dispatchAll_snoc: "dispatchAll s (as @ [a]) = reducer (dispatchAll s as) a"
  by (simp add: dispatchAll_def)

lemma insertions_Cons:
  "insertions ((now, a) # as) = (if inserted a = None then 0 else 1) + insertions as"
  by (simp add: insertions_def)

text \<open>
  C9 as stated fails. The list keeps the latest 100 transactions only: on the full sample
  state the oldest transaction is in the list, and after one \<open>addTransaction\<close> it is no
  longer there. And a fulfilled \<open>fetchTransactions\<close>, which the adjustment form
  dispatches when it opens, puts its payload in place of the whole list.
\<close>

theorem oldest_transaction_dropped_counterexample:
  "tx ''a'' \<in> set (transactions fullState)
   \<and> tx ''a'' \<notin> set (transactions (addTransaction (tx ''c'') fullState))
   \<and> tx ''a'' \<notin> set (transactions (fetchTransactions_fulfilled [tx ''c''] fullState))"
  by (simp add: fullState_def transactions_addTransaction take_100_Cons tx_def
      fetchTransactions_fulfilled_def)

text \<open>
  C9, amended. Take the transaction at index \<open>i\<close> of the list and any sequence of later
  actions of the slice, none of them a fulfilled \<open>fetchTransactions\<close>, that inserts \<open>n\<close>
  transactions. As long as \<open>i + n < 100\<close>, the transaction is still in the list,
  unchanged, at index \<open>i + n\<close>: no action rewrites an entry, and an entry leaves the list
  only by being pushed past position 99 or when a fulfilled \<open>fetchTransactions\<close>
  replaces the list, after which the list is that action's payload.
\<close>

theorem transaction_kept_below_cap:
  "i < length (transactions s) \<Longrightarrow> list_all keepsList as \<Longrightarrow> i + insertions as < 100 \<Longrightarrow>
     i + insertions as < length (transactions (dispatchAll s as))
   \<and> transactions (dispatchAll s as) ! (i + insertions as) = transactions s ! i
   \<and> transactions (dispatchAll s (as @ [(now, FetchTransactionsFulfilled p)])) = p"
proof (induction as arbitrary: s i)
  case Nil
  then show ?case
    by (simp add: dispatchAll_def insertions_def fetchTransactions_fulfilled_def)
next
  case (Cons na as)
  obtain now' a where na: "na = (now', a)" by (cases na)
  from Cons.prems(2) have "keepsList (now', a)" and rest: "list_all keepsList as"
    by (simp_all add: na)
  then have keep: "replacement a = None"
    by (simp add: keepsList_def)
  have last: "transactions (dispatchAll s ((na # as) @ [(now, FetchTransactionsFulfilled p)])) = p"
    by (simp add: dispatchAll_snoc fetchTransactions_fulfilled_def del: append.simps)
  show ?case
  proof (cases "inserted a")
    case None
    with keep have same: "transactions (reducer s (now', a)) = transactions s"
      by (simp add: transactions_reducer)
    from None have n: "insertions (na # as) = insertions as"
      by (simp add: na insertions_Cons)
    from Cons.prems same n have p: "i < length (transactions (reducer s (now', a)))"
      "i + insertions as < 100"
      by simp_all
    from Cons.IH [OF p(1) rest p(2)] same n last show ?thesis
      by (simp add: na dispatchAll_Cons del: append.simps)
  next
    case (Some t)
    with keep have new: "transactions (reducer s (now', a)) = t # take 99 (transactions s)"
      by (simp add: transactions_reducer take_100_Cons)
    from Some have n: "insertions (na # as) = Suc (insertions as)"
      by (simp add: na insertions_Cons)
    with Cons.prems have i: "Suc i < length (transactions (reducer s (now', a)))"
      "Suc i + insertions as < 100"
      by (simp_all add: new)
    from i(2) have "i < 99" by simp
    then have "transactions (reducer s (now', a)) ! Suc i = transactions s ! i"
      by (simp add: new)
    with Cons.IH [OF i(1) rest i(2)] n last show ?thesis
      by (simp add: na dispatchAll_Cons del: append.simps)
  qed
qed

text \<open>C9, amended, on a list of one transaction followed by an \<open>addTransaction\<close>, a
  rejected adjustment, a fetch of stock levels and a \<open>transaction\<close> message: the
  transaction is at index 2.\<close>

theorem transaction_kept_below_cap_witness:
  "list_all keepsList
     [(''t1'', AddTransaction (tx ''c'')), (''t2'', AdjustmentRejected ''no''),
      (''t3'', FetchStockLevelsFulfilled [level1]),
      (''t4'', HandleWebSocketMessage (transaction (tx ''d'') ''t4''))]
   \<and> transactions (dispatchAll (initialState\<lparr>transactions := [tx ''a'']\<rparr>)
      [(''t1'', AddTransaction (tx ''c'')), (''t2'', AdjustmentRejected ''no''),
       (''t3'', FetchStockLevelsFulfilled [level1]),
       (''t4'', HandleWebSocketMessage (transaction (tx ''d'') ''t4''))]) ! 2 = tx ''a''"
proof -
  define acts where "acts = [(''t1'', AddTransaction (tx ''c'')), (''t2'', AdjustmentRejected ''no''),
       (''t3'', FetchStockLevelsFulfilled [level1]),
       (''t4'', HandleWebSocketMessage (transaction (tx ''d'') ''t4''))]"
  define s where "s = initialState\<lparr>transactions := [tx ''a'']\<rparr>"
  have n: "insertions acts = 2"
    by (simp add: insertions_def acts_def)
  have k: "list_all keepsList acts"
    by (simp add: acts_def keepsList_def)
  have i: "0 < length (transactions s)" "0 + insertions acts < 100"
    by (simp_all add: n s_def)
  from transaction_kept_below_cap [OF i(1) k i(2)]
  have "transactions (dispatchAll s acts) ! 2 = transactions s ! 0"
    by (simp only: n add_0)
  with k show ?thesis
    by (simp add: s_def acts_def)
qed

subsection \<open>Resubmission\<close>

text \<open>
  C3 as stated fails: neither \<open>InventoryAdjustment\<close> nor \<open>InventoryTransaction\<close> has an
  idempotency key, and nothing looks for an earlier entry. The same transaction added
  twice to the empty list is in the list twice.
\<close>

theorem resubmission_recorded_twice_counterexample:
  "transactions (addTransaction (tx ''a'') (addTransaction (tx ''a'') initialState))
     = [tx ''a'', tx ''a'']"
  by (simp add: transactions_addTransaction take_100_Cons initialState_def)

text \<open>
  C3, amended. Submitting the same transaction a second time records it a second time:
  after two \<open>addTransaction\<close> calls, or two fulfilled adjustments, with the same
  transaction, the list is the first 100 entries of that transaction twice followed by
  the old list. Neither operation touches the stock levels, the first time or the second.
\<close>

theorem resubmission_prepends_again:
  "transactions (addTransaction t (addTransaction t s)) = take 100 (t # t # transactions s)
   \<and> stockLevels (addTransaction t (addTransaction t s)) = stockLevels s
   \<and> transactions (createInventoryAdjustment_fulfilled t (createInventoryAdjustment_fulfilled t s))
       = take 100 (t # t # transactions s)
   \<and> stockLevels (createInventoryAdjustment_fulfilled t (createInventoryAdjustment_fulfilled t s))
       = stockLevels s"
  by (simp add: transactions_addTransaction transactions_fulfilled take_100_Cons take_Cons'
      addTransaction_def createInventoryAdjustment_fulfilled_def Let_def)

text \<open>C3, amended, for a fulfilled adjustment repeated on a state with one stock level.\<close>

theorem resubmission_prepends_again_witness:
  "transactions (createInventoryAdjustment_fulfilled (tx ''a'')
      (createInventoryAdjustment_fulfilled (tx ''a'') (initialState\<lparr>stockLevels := [level1]\<rparr>)))
     = [tx ''a'', tx ''a'']
   \<and> stockLevels (createInventoryAdjustment_fulfilled (tx ''a'')
      (createInventoryAdjustment_fulfilled (tx ''a'') (initialState\<lparr>stockLevels := [level1]\<rparr>)))
     = [level1]"
  using resubmission_prepends_again [of "tx ''a''" "initialState\<lparr>stockLevels := [level1]\<rparr>"]
  by (simp add: initialState_def take_100_Cons)

subsection \<open>Versions\<close>

lemma find_update_first:
  "findIndex P xs = Some i \<Longrightarrow> P p \<Longrightarrow> find P (xs[i := p]) = Some p"
proof (induction xs arbitrary: i)
  case Nil
  then show ?case by simp
next
  case (Cons x xs)
  then show ?case by (cases "P x") auto
qed

lemma find_append_new:
  "findIndex P xs = None \<Longrightarrow> P p \<Longrightarrow> find P (xs @ [p]) = Some p"
  by (induction xs) (auto split: if_splits)

lemma findIndex_update_same:
  "findIndex P xs = Some i \<Longrightarrow> P p \<Longrightarrow> findIndex P (xs[i := p]) = Some i"
proof (induction xs arbitrary: i)
  case Nil
  then show ?case by simp
next
  case (Cons x xs)
  then show ?case by (cases "P x") auto
qed

lemma findIndex_append_new:
  "findIndex P xs = None \<Longrightarrow> P p \<Longrightarrow> findIndex P (xs @ [p]) = Some (length xs)"
  by (induction xs) (auto split: if_splits)

text \<open>
  C5 as stated fails: \<open>StockLevel\<close> has no version field, and an update stores the
  payload as it is. Two accepted updates with the same payload leave the very same record
  (and list) as one, so nothing the record carries has gone up by one.
\<close>

theorem second_update_same_record_counterexample:
  "stockLevels (updateStockLevel ''t2'' level1 (updateStockLevel ''t1'' level1 initialState))
     = stockLevels (updateStockLevel ''t1'' level1 initialState)
   \<and> stockLevels (updateStockLevel ''t1'' level1 initialState) = [level1]"
  by (simp add: updateStockLevel_def initialState_def Let_def)

text \<open>
  C5, amended. The stock record carries no version. After \<open>updateStockLevel\<close> the record
  found for the payload's (itemId, locationId) pair is the payload itself, field for
  field, and repeating the update with the same payload leaves the stock levels as they
  are.
\<close>

theorem update_stores_payload:
  "find (\<lambda>level. stockKey level = stockKey p) (stockLevels (updateStockLevel now p s)) = Some p
   \<and> stockLevels (updateStockLevel now' p (updateStockLevel now p s))
       = stockLevels (updateStockLevel now p s)"
proof (cases "findIndex (\<lambda>level. stockKey level = stockKey p) (stockLevels s)")
  case None
  then show ?thesis
    by (simp add: stockLevels_updateStockLevel find_append_new findIndex_append_new)
next
  case (Some i)
  then show ?thesis
    by (simp add: stockLevels_updateStockLevel find_update_first findIndex_update_same)
qed

text \<open>C5, amended, for a new quantity of the vodka level next to the gin level.\<close>

theorem update_stores_payload_witness:
  "find (\<lambda>level. stockKey level = stockKey lowStock)
     (stockLevels (updateStockLevel ''t1'' lowStock
        (initialState\<lparr>stockLevels := [level2, level1]\<rparr>))) = Some lowStock"
  using update_stores_payload [of lowStock "''t1''" "initialState\<lparr>stockLevels := [level2, level1]\<rparr>"]
  by simp

subsection \<open>Rejected adjustments\<close>

text \<open>
  C7. The reducer of a rejected \<open>createInventoryAdjustment\<close> leaves every stock level
  and the transaction list as they were: it writes the error message and clears the
  loading flag, nothing else. A submission that starts from a state that is not loading
  (pending, then rejected) ends in the state it started from with only the error message
  changed.
\<close>

theorem rejected_adjustment_changes_only_error:
  "stockLevels (createInventoryAdjustment_rejected msg s) = stockLevels s
   \<and> transactions (createInventoryAdjustment_rejected msg s) = transactions s
   \<and> createInventoryAdjustment_rejected msg s = s\<lparr>isLoading := False, error := Some msg\<rparr>
   \<and> (\<not> isLoading s \<longrightarrow>
        createInventoryAdjustment_rejected msg (createInventoryAdjustment_pending s)
          = s\<lparr>error := Some msg\<rparr>)"
  by (simp add: createInventoryAdjustment_rejected_def createInventoryAdjustment_pending_def)

text \<open>C7 for a rejected adjustment against the vodka level of quantity 2: the level and
  the empty transaction list are as before.\<close>

theorem rejected_adjustment_changes_only_error_witness:
  "\<not> isLoading (initialState\<lparr>stockLevels := [lowStock]\<rparr>)
   \<and> createInventoryAdjustment_rejected ''Insufficient stock''
        (createInventoryAdjustment_pending (initialState\<lparr>stockLevels := [lowStock]\<rparr>))
       = initialState\<lparr>stockLevels := [lowStock], error := Some ''Insufficient stock''\<rparr>
   \<and> stockLevels (createInventoryAdjustment_rejected ''Insufficient stock''
        (createInventoryAdjustment_pending (initialState\<lparr>stockLevels := [lowStock]\<rparr>)))
       = [lowStock]
   \<and> transactions (createInventoryAdjustment_rejected ''Insufficient stock''
        (createInventoryAdjustment_pending (initialState\<lparr>stockLevels := [lowStock]\<rparr>)))
       = []"
proof -
  have idle: "\<not> isLoading (initialState\<lparr>stockLevels := [lowStock]\<rparr>)"
    by (simp add: initialState_def)
  from rejected_adjustment_changes_only_error
         [of "''Insufficient stock''" "initialState\<lparr>stockLevels := [lowStock]\<rparr>"] idle
  have "createInventoryAdjustment_rejected ''Insufficient stock''
          (createInventoryAdjustment_pending (initialState\<lparr>stockLevels := [lowStock]\<rparr>))
        = initialState\<lparr>stockLevels := [lowStock], error := Some ''Insufficient stock''\<rparr>"
    by simp
  with idle show ?thesis by (simp add: initialState_def)
qed

section \<open>Properties of the adjustment form\<close>

subsection \<open>Rounding\<close>

lemma pow2_pos: "0 < pow2 k"
  by (simp add: pow2_def)

text \<open>\<open>exponent\<close> is the binary exponent: \<open>2^e \<le> a < 2^(e+1)\<close>.\<close>

lemma bitlen_pos: "0 < k \<Longrightarrow> 1 \<le> bitlen k"
  using bitlen_eq_zero_iff [of k] bitlen_nonneg [of k] by linarith

lemma exponent_bounds:
  assumes "0 < a"
  shows "pow2 (exponent a) \<le> a \<and> a < pow2 (exponent a + 1)"
proof (cases "1 \<le> a")
  case True
  define k where "k = \<lfloor>a\<rfloor>"
  from True have k: "1 \<le> k" by (simp add: k_def le_floor_iff)
  then have b: "1 \<le> bitlen k" by (simp add: bitlen_pos)
  from k bitlen_bounds [of k] have lo: "2 ^ nat (bitlen k - 1) \<le> k" and hi: "k < 2 ^ nat (bitlen k)"
    by simp_all
  from lo have "(2 :: rat) ^ nat (bitlen k - 1) \<le> of_int k" by simp
  also have "of_int k \<le> a" by (simp add: k_def)
  finally have 1: "(2 :: rat) ^ nat (bitlen k - 1) \<le> a" .
  have "a < of_int (k + 1)"
    using floor_correct [of a] by (simp add: k_def)
  also from hi have "k + 1 \<le> 2 ^ nat (bitlen k)" by simp
  then have "(of_int (k + 1) :: rat) \<le> 2 ^ nat (bitlen k)"
    by (simp only: of_int_le_numeral_power_cancel_iff)
  finally have 2: "a < (2 :: rat) ^ nat (bitlen k)" .
  from True b 1 2 show ?thesis
    by (simp add: exponent_def pow2_def k_def)
next
  case False
  define m where "m = \<lceil>1 / a\<rceil> - 1"
  from False assms have "1 < 1 / a" by simp
  then have "1 < \<lceil>1 / a\<rceil>" by (simp add: less_ceiling_iff)
  then have m: "1 \<le> m" by (simp add: m_def)
  then have b: "1 \<le> bitlen m" by (simp add: bitlen_pos)
  from m bitlen_bounds [of m] have lo: "2 ^ nat (bitlen m - 1) \<le> m" and hi: "m < 2 ^ nat (bitlen m)"
    by simp_all
  have "1 / a \<le> of_int (m + 1)"
    using ceiling_correct [of "1 / a"] by (simp add: m_def)
  also from hi have "m + 1 \<le> 2 ^ nat (bitlen m)" by simp
  then have "(of_int (m + 1) :: rat) \<le> 2 ^ nat (bitlen m)"
    by (simp only: of_int_le_numeral_power_cancel_iff)
  finally have "1 / a \<le> (2 :: rat) ^ nat (bitlen m)" .
  with assms have 1: "1 / (2 :: rat) ^ nat (bitlen m) \<le> a"
    by (simp add: field_simps)
  from lo have "(2 :: rat) ^ nat (bitlen m - 1) \<le> of_int m" by simp
  also have "(of_int m :: rat) < 1 / a"
    using ceiling_correct [of "1 / a"] by (simp add: m_def)
  finally have "(2 :: rat) ^ nat (bitlen m - 1) < 1 / a" .
  with assms have 2: "a < 1 / (2 :: rat) ^ nat (bitlen m - 1)"
    by (simp add: field_simps)
  have e: "exponent a = - bitlen m"
    using False by (simp add: exponent_def m_def)
  show ?thesis
  proof (cases "bitlen m = 1")
    case True
    with 1 2 show ?thesis by (simp add: e pow2_def)
  next
    case False
    with b have "1 < bitlen m" by simp
    moreover have "- (- bitlen m + 1) = bitlen m - 1" by simp
    ultimately show ?thesis using 1 2 b by (simp add: e pow2_def)
  qed
qed

lemma roundHalfEven_of_int: "roundHalfEven (of_int n) = n"
  by (simp add: roundHalfEven_def)

lemma roundHalfEven_nonneg: "0 \<le> y \<Longrightarrow> 0 \<le> roundHalfEven y"
  by (simp add: roundHalfEven_def Let_def)

lemma round64_of_nat_int:
  assumes "1 \<le> k" and "k < 2 ^ 53"
  shows "round64 (of_int k) = Num (of_int k)" and "round64 (- of_int k) = Num (- of_int k)"
proof -
  from assms(1) have kpos: "0 < k" by simp
  have b1: "1 \<le> bitlen k"
    using kpos bitlen_eq_zero_iff [of k] bitlen_nonneg [of k] by linarith
  from assms(2) have b53: "bitlen k \<le> 53"
    by (simp add: bitlen_le_iff_power)
  define m where "m = nat (53 - bitlen k)"
  have ex: "exponent (of_int k) = bitlen k - 1"
    using assms(1) by (simp add: exponent_def)
  have e: "max (bitlen k - 1) (- 1022) = bitlen k - 1"
    using b1 by simp
  have q: "pow2 (bitlen k - 1 - 52) = 1 / 2 ^ m"
  proof (cases "bitlen k = 53")
    case True
    then show ?thesis by (simp add: pow2_def m_def)
  next
    case False
    with b53 have "bitlen k - 1 - 52 < 0" by simp
    moreover have "- (bitlen k - 1 - 52) = 53 - bitlen k" by simp
    ultimately show ?thesis by (simp add: pow2_def m_def)
  qed
  have d: "(of_int k :: rat) / (1 / 2 ^ m) = of_int (k * 2 ^ m)"
    by simp
  have r: "of_int (roundHalfEven ((of_int k :: rat) / (1 / 2 ^ m))) * (1 / 2 ^ m) = (of_int k :: rat)"
    unfolding d roundHalfEven_of_int by simp
  have small: "\<not> (2 :: rat) ^ 1024 \<le> of_int k"
  proof -
    from assms(2) have "(of_int k :: rat) < of_int (2 ^ 53)"
      by (simp only: of_int_less_iff)
    then have "(of_int k :: rat) < 2 ^ 53" by simp
    moreover have "(2 :: rat) ^ 53 \<le> 2 ^ 1024"
      by (rule power_increasing) simp_all
    ultimately show ?thesis by simp
  qed
  have nz: "(of_int k :: rat) \<noteq> 0" and pos: "\<not> (of_int k :: rat) < 0"
    and a: "\<bar>of_int k :: rat\<bar> = of_int k"
    using kpos by simp_all
  show "round64 (of_int k) = Num (of_int k)"
    unfolding round64_def Let_def a ex e q r using nz pos small by simp
  have nz': "- (of_int k :: rat) \<noteq> 0" and neg: "- (of_int k :: rat) < 0"
    and a': "\<bar>- of_int k :: rat\<bar> = of_int k"
    using kpos by simp_all
  show "round64 (- of_int k) = Num (- of_int k)"
    unfolding round64_def Let_def a' ex e q r using nz' neg small by simp
qed

lemma round64_safeInteger:
  assumes "isSafeInteger x"
  shows "round64 x = Num x"
proof -
  define n where "n = \<lfloor>x\<rfloor>"
  from assms have fl: "of_int \<lfloor>x\<rfloor> = x" and bound: "\<bar>x\<bar> < 2 ^ 53"
    unfolding isSafeInteger_def by blast+
  from fl have x: "x = of_int n"
    unfolding n_def by (rule sym)
  from bound have "\<bar>of_int n :: rat\<bar> < of_int (2 ^ 53)"
    by (simp add: x)
  then have "(of_int \<bar>n\<bar> :: rat) < of_int (2 ^ 53)"
    by simp
  then have nb: "\<bar>n\<bar> < 2 ^ 53"
    by (simp only: of_int_less_iff)
  consider "n = 0" | "1 \<le> n" | "n \<le> - 1" by linarith
  then show ?thesis
  proof cases
    case 1
    then show ?thesis by (simp add: x round64_def)
  next
    case 2
    with nb have "n < 2 ^ 53" by simp
    with 2 show ?thesis unfolding x by (rule round64_of_nat_int(1))
  next
    case 3
    then have p: "1 \<le> - n" by simp
    from nb 3 have "- n < 2 ^ 53" by simp
    with p have "round64 (- of_int (- n)) = Num (- of_int (- n))"
      by (rule round64_of_nat_int(2))
    then show ?thesis by (simp add: x)
  qed
qed

lemma round64_cases:
  "round64 x = Num 0 \<and> x = 0
   \<or> 0 < x \<and> (round64 x = PosInf \<or> (\<exists>r. 0 \<le> r \<and> round64 x = Num r))
   \<or> x < 0 \<and> (round64 x = NegInf \<or> (\<exists>r. r \<le> 0 \<and> round64 x = Num r))"
proof -
  define q where "q = pow2 (max (exponent \<bar>x\<bar>) (- 1022) - 52)"
  define r where "r = of_int (roundHalfEven (\<bar>x\<bar> / q)) * q"
  have "0 < q" by (simp add: q_def pow2_pos)
  then have "0 \<le> \<bar>x\<bar> / q" by simp
  then have "0 \<le> roundHalfEven (\<bar>x\<bar> / q)" by (rule roundHalfEven_nonneg)
  with \<open>0 < q\<close> have r0: "0 \<le> r" by (simp add: r_def)
  have eq: "x \<noteq> 0 \<Longrightarrow> round64 x =
      (if 2 ^ 1024 \<le> r then (if x < 0 then NegInf else PosInf)
       else Num (if x < 0 then - r else r))"
    by (simp add: round64_def Let_def r_def q_def)
  consider "x = 0" | "0 < x" | "x < 0" by linarith
  then show ?thesis
  proof cases
    case 1
    then show ?thesis by (simp add: round64_def)
  next
    case 2
    with eq r0 show ?thesis by auto
  next
    case 3
    with eq r0 show ?thesis by auto
  qed
qed

lemma Math_max_zero_neg: "x < 0 \<Longrightarrow> Math_max (Num 0) (round64 x) = Num 0"
  using round64_cases [of x] by auto

lemma Math_max_zero_nonneg: "0 \<le> x \<Longrightarrow> Math_max (Num 0) (round64 x) = round64 x"
  using round64_cases [of x] by auto

lemma parseFloat_5: "parseFloat ''5'' = Num 5"
  by (simp add: parseFloat_def isWhiteSpace_def isDigit_def digitsValue_def
      round64_safeInteger isSafeInteger_def)





lemma selected_lowStock: "selectedStockLevel [lowStock] ''vodka'' ''main-bar'' = Some lowStock"
  by (simp add: selectedStockLevel_def lowStock_def level1_def)

subsection \<open>Subtracting more than is in stock\<close>

text \<open>
  C1 as stated fails: \<open>getNewStockLevel\<close> has no error result, and for a subtraction it
  returns \<open>Math.max(0, currentStock - adjustmentAmount)\<close>. Subtracting 5 from the vodka
  level of quantity 2 gives 0: neither an error nor the unchanged quantity 2.
\<close>

theorem subtract_beyond_stock_counterexample:
  "selectedStockLevel [lowStock] ''vodka'' ''main-bar'' = Some lowStock
   \<and> currentStock lowStock = Num 2
   \<and> getNewStockLevel (selectedStockLevel [lowStock] ''vodka'' ''main-bar'') ''5'' adj_subtract
       = Num 0"
proof -
  have c: "currentStock lowStock = Num 2" by (simp add: lowStock_def)
  then show ?thesis
    by (simp add: selected_lowStock getNewStockLevel_def parseFloat_5 Math_max_zero_neg)
qed

text \<open>
  C1, amended. For the stock level selected by an (itemId, locationId) pair, with
  quantity \<open>c\<close>, and a SUBTRACT whose quantity text reads as the amount \<open>a\<close>, the
  adjustment computation returns the larger of \<open>0\<close> and the double nearest to \<open>c - a\<close>:
  when the amount exceeds the quantity the result is clamped to \<open>0\<close>, otherwise it is
  that double. The computation always returns a number and never rejects.
\<close>

theorem subtract_beyond_stock_clamps:
  "selectedStockLevel levels item loc = Some level \<Longrightarrow> currentStock level = Num c \<Longrightarrow>
   quantity \<noteq> [] \<Longrightarrow> parseFloat quantity = Num a \<Longrightarrow>
     getNewStockLevel (selectedStockLevel levels item loc) quantity adj_subtract
       = Math_max (Num 0) (round64 (c - a))
   \<and> (c < a \<longrightarrow>
        getNewStockLevel (selectedStockLevel levels item loc) quantity adj_subtract = Num 0)
   \<and> (a \<le> c \<longrightarrow>
        getNewStockLevel (selectedStockLevel levels item loc) quantity adj_subtract
          = round64 (c - a))"
  by (simp add: getNewStockLevel_def Math_max_zero_neg Math_max_zero_nonneg)

text \<open>C1, amended, for SUBTRACT 5 on the vodka level of quantity 2.\<close>

theorem subtract_beyond_stock_clamps_witness:
  "selectedStockLevel [lowStock] ''vodka'' ''main-bar'' = Some lowStock
   \<and> currentStock lowStock = Num 2 \<and> ''5'' \<noteq> [] \<and> parseFloat ''5'' = Num 5 \<and> (2::rat) < 5
   \<and> getNewStockLevel (selectedStockLevel [lowStock] ''vodka'' ''main-bar'') ''5'' adj_subtract
       = Num 0"
proof -
  have c: "currentStock lowStock = Num 2" by (simp add: lowStock_def)
  have q: "''5'' \<noteq> []" by simp
  from subtract_beyond_stock_clamps [OF selected_lowStock c q parseFloat_5]
    selected_lowStock c parseFloat_5
  show ?thesis by (simp add: Math_max_zero_neg)
qed

subsection \<open>Sequences of ADD and SUBTRACT\<close>












subsection \<open>Amounts that are not positive\<close>





end
